theory Spec2Isabelle
  imports Main "HOL-Library.Word" "HOL-Library.Log_Nat"
begin

section \<open>Strings of the source language\<close>

text \<open>
  A JavaScript string is a sequence of 16-bit code units; \<open>length\<close> counts code units,
  and a regular expression without the \<open>u\<close> flag matches single code units.
\<close>

type_synonym codeunit = "16 word"
type_synonym jsstring = "codeunit list"

text \<open>The code units of an ASCII literal of the source.\<close>

definition str :: "string \<Rightarrow> jsstring" where
  "str s = map (\<lambda>c. word_of_nat (of_char c)) s"

definition isDigit :: "codeunit \<Rightarrow> bool" where
  "isDigit c \<longleftrightarrow> 0x30 \<le> c \<and> c \<le> 0x39"

definition DOT :: codeunit where
  "DOT = 0x2E"

text \<open>
  White space and line terminators of the language (the characters that \<open>trim\<close> and
  \<open>parseFloat\<close> skip): TAB, LF, VT, FF, CR, SP, NBSP, U+1680, U+2000 to U+200A,
  U+2028, U+2029, U+202F, U+205F, U+3000 and U+FEFF.
\<close>

definition isWhiteSpace :: "codeunit \<Rightarrow> bool" where
  "isWhiteSpace c \<longleftrightarrow>
     (0x09 \<le> c \<and> c \<le> 0x0D) \<or> c = 0x20 \<or> c = 0xA0 \<or> c = 0x1680 \<or>
     (0x2000 \<le> c \<and> c \<le> 0x200A) \<or> c = 0x2028 \<or> c = 0x2029 \<or> c = 0x202F \<or>
     c = 0x205F \<or> c = 0x3000 \<or> c = 0xFEFF"

text \<open>\<open>String.prototype.trim\<close>.\<close>

definition trim :: "jsstring \<Rightarrow> jsstring" where
  "trim s = rev (dropWhile isWhiteSpace (rev (dropWhile isWhiteSpace s)))"

text \<open>
  \<open>s.split(sep)\<close> for a separator of one code unit and no limit: the pieces between
  the occurrences of the separator, one more than there are occurrences.
\<close>

fun split :: "codeunit \<Rightarrow> jsstring \<Rightarrow> jsstring list" where
  "split sep [] = [[]]"
| "split sep (c # cs) =
     (if c = sep then [] # split sep cs
      else (case split sep cs of
              [] \<Rightarrow> [[c]]
            | p # ps \<Rightarrow> (c # p) # ps))"

section \<open>The state of the component\<close>

text \<open>
  \<open>formData\<close> (the Draft): the four fields of the initial object, and the properties
  that a computed key other than these four would add to it.
\<close>

record formData =
  category :: jsstring
  amount :: jsstring
  currency :: jsstring
  "note" :: jsstring
  other :: "(jsstring \<times> jsstring) list"

definition initialFormData :: formData where
  "initialFormData =
     \<lparr>category = str ''General'', amount = [], currency = str ''MXN'', note = [],
      other = []\<rparr>"

text \<open>\<open>{ ...prev, [field]: value }\<close>: the object \<open>prev\<close> with property \<open>field\<close> set.\<close>

definition setProp :: "jsstring \<Rightarrow> jsstring \<Rightarrow> formData \<Rightarrow> formData" where
  "setProp field v prev =
     (if field = str ''category'' then prev\<lparr>category := v\<rparr>
      else if field = str ''amount'' then prev\<lparr>amount := v\<rparr>
      else if field = str ''currency'' then prev\<lparr>currency := v\<rparr>
      else if field = str ''note'' then prev\<lparr>note := v\<rparr>
      else prev\<lparr>other := (field, v) # filter (\<lambda>kv. fst kv \<noteq> field) (other prev)\<rparr>)"

text \<open>\<open>value.replace(/[^0-9.]/g, '')\<close>\<close>

definition stripNonNumeric :: "jsstring \<Rightarrow> jsstring" where
  "stripNonNumeric v = filter (\<lambda>c. isDigit c \<or> c = DOT) v"

text \<open>
  \<open>handleInputChange(field, value)\<close>; every \<open>setFormData(prev => ...)\<close> is applied to the
  current \<open>formData\<close>, a \<open>return\<close> without it leaves the state as it is.
\<close>

definition handleInputChange :: "jsstring \<Rightarrow> jsstring \<Rightarrow> formData \<Rightarrow> formData" where
  "handleInputChange field v fd =
     (if field = str ''amount'' then
        (let numericValue = stripNonNumeric v;
             parts = split DOT numericValue
         in if length parts > 2 then fd
            else fd\<lparr>amount := numericValue\<rparr>)
      else if field = str ''note'' then
        (if length v \<le> 140 then fd\<lparr>note := v\<rparr> else fd)
      else setProp field v fd)"

definition toggleCurrency :: "formData \<Rightarrow> formData" where
  "toggleCurrency prev =
     prev\<lparr>currency := (if currency prev = str ''MXN'' then str ''USD'' else str ''MXN'')\<rparr>"

section \<open>Numbers\<close>

text \<open>
  A Number of the language is an IEEE 754 binary64 value. \<open>Finite q\<close> carries the exact
  rational value of a finite double. Negative zero is identified with zero: the program
  only compares numbers with \<open>0\<close>, adds them to a sum that starts at \<open>+0\<close> and prints them,
  and none of these tells the two zeros apart on the values it can reach.
\<close>

datatype number = NaN | PosInfinity | NegInfinity | Finite rat

fun negate :: "number \<Rightarrow> number" where
  "negate NaN = NaN"
| "negate PosInfinity = NegInfinity"
| "negate NegInfinity = PosInfinity"
| "negate (Finite q) = Finite (- q)"

text \<open>The comparisons \<open>x <= y\<close> and \<open>x > y\<close>: false as soon as one side is \<open>NaN\<close>.\<close>

fun js_le :: "number \<Rightarrow> number \<Rightarrow> bool" where
  "js_le NaN y = False"
| "js_le x NaN = False"
| "js_le NegInfinity y = True"
| "js_le x PosInfinity = True"
| "js_le PosInfinity y = False"
| "js_le x NegInfinity = False"
| "js_le (Finite a) (Finite b) = (a \<le> b)"

fun js_gt :: "number \<Rightarrow> number \<Rightarrow> bool" where
  "js_gt NaN y = False"
| "js_gt x NaN = False"
| "js_gt x PosInfinity = False"
| "js_gt NegInfinity y = False"
| "js_gt PosInfinity y = True"
| "js_gt x NegInfinity = True"
| "js_gt (Finite a) (Finite b) = (b < a)"

text \<open>Rounding a rational to the nearest integer, ties to the even one.\<close>

definition roundHalfEven :: "rat \<Rightarrow> int" where
  "roundHalfEven m =
     (let f = \<lfloor>m\<rfloor>; r = m - of_int f
      in if r < 1 / 2 then f else if 1 / 2 < r then f + 1 else if even f then f else f + 1)"

text \<open>For \<open>q > 0\<close>, the integer \<open>e\<close> with \<open>2^e \<le> q < 2^(e+1)\<close>.\<close>

definition floorLog2 :: "rat \<Rightarrow> int" where
  "floorLog2 q = (if 1 \<le> q then bitlen \<lfloor>q\<rfloor> - 1 else - bitlen (\<lceil>1 / q\<rceil> - 1))"

text \<open>
  The double nearest to a positive rational: 53 significant bits, the exponent not below
  that of the subnormal numbers, ties to even, and \<open>Infinity\<close> from \<open>2^1024\<close> on.
\<close>

definition roundPos :: "rat \<Rightarrow> number" where
  "roundPos q =
     (let e = max (floorLog2 q) (- 1022);
          ulp = 2 powi (e - 52);
          r = of_int (roundHalfEven (q / ulp)) * ulp
      in if 2 ^ 1024 \<le> r then PosInfinity else Finite r)"

definition roundToDouble :: "rat \<Rightarrow> number" where
  "roundToDouble q =
     (if q = 0 then Finite 0
      else if 0 < q then roundPos q
      else negate (roundPos (- q)))"

section \<open>parseFloat\<close>

definition PLUS :: codeunit where
  "PLUS = 0x2B"

definition MINUS :: codeunit where
  "MINUS = 0x2D"

definition isExponentIndicator :: "codeunit \<Rightarrow> bool" where
  "isExponentIndicator c \<longleftrightarrow> c = 0x65 \<or> c = 0x45"

definition digitsValue :: "jsstring \<Rightarrow> int" where
  "digitsValue ds = foldl (\<lambda>a c. 10 * a + (uint c - 48)) 0 ds"

text \<open>
  The value of the exponent part at the start of \<open>r\<close>, \<open>0\<close> when the text does not go on
  with a complete one (an indicator, an optional sign and at least one digit).
\<close>

definition signedInteger :: "int \<Rightarrow> jsstring \<Rightarrow> int" where
  "signedInteger sg r =
     (let ds = takeWhile isDigit r in if ds = [] then 0 else sg * digitsValue ds)"

definition exponentPart :: "jsstring \<Rightarrow> int" where
  "exponentPart r =
     (case r of
        [] \<Rightarrow> 0
      | c # r' \<Rightarrow>
          if isExponentIndicator c then
            (case r' of
               [] \<Rightarrow> 0
             | s # r'' \<Rightarrow>
                 if s = PLUS then signedInteger 1 r''
                 else if s = MINUS then signedInteger (- 1) r''
                 else signedInteger 1 r')
          else 0)"

text \<open>
  The Number of the digits \<open>ip\<close>, \<open>.\<close>, \<open>fp\<close> with exponent \<open>ex\<close>: its mathematical
  value, correctly rounded, as the engines compute it (the language lets an implementation
  cut the digits after the twentieth significant one).
\<close>

definition decimalValue :: "jsstring \<Rightarrow> jsstring \<Rightarrow> int \<Rightarrow> number" where
  "decimalValue ip fp ex =
     roundToDouble (of_int (digitsValue (ip @ fp)) * 10 powi (ex - int (length fp)))"

text \<open>
  The longest prefix of \<open>r\<close> that is a \<open>StrUnsignedDecimalLiteral\<close>: \<open>Infinity\<close>, or
  digits with an optional fraction, or a \<open>.\<close> followed by digits, each with an optional
  exponent part. \<open>None\<close> when no prefix is one.
\<close>

definition strUnsignedDecimalLiteral :: "jsstring \<Rightarrow> number option" where
  "strUnsignedDecimalLiteral r =
     (if take 8 r = str ''Infinity'' then Some PosInfinity
      else
        (let ip = takeWhile isDigit r; r1 = dropWhile isDigit r
         in case r1 of
              [] \<Rightarrow> if ip = [] then None else Some (decimalValue ip [] 0)
            | d # r1' \<Rightarrow>
                if d = DOT then
                  (let fp = takeWhile isDigit r1'; r2 = dropWhile isDigit r1'
                   in if ip = [] \<and> fp = [] then None
                      else Some (decimalValue ip fp (exponentPart r2)))
                else if ip = [] then None
                else Some (decimalValue ip [] (exponentPart r1))))"

definition strDecimalLiteral :: "jsstring \<Rightarrow> number option" where
  "strDecimalLiteral t =
     (case t of
        [] \<Rightarrow> None
      | c # r \<Rightarrow>
          if c = PLUS then strUnsignedDecimalLiteral r
          else if c = MINUS then map_option negate (strUnsignedDecimalLiteral r)
          else strUnsignedDecimalLiteral t)"

text \<open>
  \<open>parseFloat(s)\<close>: leading white space is skipped, the longest prefix that is a decimal
  literal is converted, and the result is \<open>NaN\<close> when there is none.
\<close>

definition parseFloat :: "jsstring \<Rightarrow> number" where
  "parseFloat s =
     (case strDecimalLiteral (dropWhile isWhiteSpace s) of
        None \<Rightarrow> NaN
      | Some x \<Rightarrow> x)"

section \<open>The Ledger and the commit\<close>

text \<open>An entry of \<open>spendings\<close> (the Ledger), as \<open>addSpending\<close> builds it.\<close>

record spending =
  sp_id :: int
  sp_category :: jsstring
  sp_amount :: number
  sp_currency :: jsstring
  sp_note :: jsstring
  sp_date :: jsstring

text \<open>The three state variables of \<open>App\<close>.\<close>

record appState =
  spendings :: "spending list"
  filterCategory :: jsstring
  formData :: formData

definition initialState :: appState where
  "initialState = \<lparr>spendings = [], filterCategory = str ''All'', formData = initialFormData\<rparr>"

text \<open>
  \<open>addSpending()\<close>. \<open>now\<close> is what \<open>Date.now()\<close> returns and \<open>today\<close> what
  \<open>new Date().toLocaleDateString()\<close> returns at the call; \<open>newSpending\<close> is the
  object of that name. The result is the message passed to \<open>alert\<close>, if any, and the
  state after the call. \<open>!formData.amount\<close> holds of the empty string only.
\<close>

definition newSpending :: "int \<Rightarrow> jsstring \<Rightarrow> formData \<Rightarrow> spending" where
  "newSpending now today fd =
     \<lparr>sp_id = now,
      sp_category = category fd,
      sp_amount = parseFloat (amount fd),
      sp_currency = currency fd,
      sp_note = trim (note fd),
      sp_date = today\<rparr>"

definition addSpending :: "int \<Rightarrow> jsstring \<Rightarrow> appState \<Rightarrow> jsstring option \<times> appState" where
  "addSpending now today st =
     (if amount (formData st) = [] \<or> js_le (parseFloat (amount (formData st))) (Finite 0) then
        (Some (str ''Please enter a valid amount''), st)
      else
        (None, st\<lparr>spendings := newSpending now today (formData st) # spendings st,
                   formData := initialFormData\<rparr>))"

text \<open>
  \<open>isFormValid = formData.amount && parseFloat(formData.amount) > 0\<close> is the empty
  string when the amount is empty and the boolean otherwise; the button is disabled
  when \<open>!isFormValid\<close>.
\<close>

datatype jsvalue = VString jsstring | VBoolean bool

fun toBoolean :: "jsvalue \<Rightarrow> bool" where
  "toBoolean (VString s) = (s \<noteq> [])"
| "toBoolean (VBoolean b) = b"

definition isFormValid :: "appState \<Rightarrow> jsvalue" where
  "isFormValid st =
     (if toBoolean (VString (amount (formData st))) then
        VBoolean (js_gt (parseFloat (amount (formData st))) (Finite 0))
      else VString (amount (formData st)))"

definition addButtonDisabled :: "appState \<Rightarrow> bool" where
  "addButtonDisabled st = (\<not> toBoolean (isFormValid st))"

section \<open>Events\<close>

text \<open>
  The handlers that the rendered elements call: \<open>onChange\<close> of the category selector,
  the amount field and the note field (\<open>handleInputChange\<close> with the element's value),
  the currency button, the filter selector, and \<open>addSpending\<close>, which a program can call
  whether the button is disabled or not.
\<close>

datatype event =
    InputChange jsstring jsstring
  | ToggleCurrency
  | SetFilterCategory jsstring
  | AddSpending int jsstring

fun step :: "appState \<Rightarrow> event \<Rightarrow> appState" where
  "step st (InputChange field v) = st\<lparr>formData := handleInputChange field v (formData st)\<rparr>"
| "step st ToggleCurrency = st\<lparr>formData := toggleCurrency (formData st)\<rparr>"
| "step st (SetFilterCategory c) = st\<lparr>filterCategory := c\<rparr>"
| "step st (AddSpending now today) = snd (addSpending now today st)"

definition run :: "appState \<Rightarrow> event list \<Rightarrow> appState" where
  "run st evs = foldl step st evs"

text \<open>
  A key typed at the end of the amount field. The field is a controlled input
  (\<open>value={formData.amount}\<close>): it shows the amount of the state, so the value that
  \<open>onChange\<close> passes on is that amount followed by the key.
\<close>

definition typeAmountKey :: "appState \<Rightarrow> codeunit \<Rightarrow> appState" where
  "typeAmountKey st k = step st (InputChange (str ''amount'') (amount (formData st) @ [k]))"

definition typeAmount :: "appState \<Rightarrow> jsstring \<Rightarrow> appState" where
  "typeAmount st keys = foldl typeAmountKey st keys"

section \<open>Runs of the component\<close>

text \<open>A sequence of values passed to \<open>handleInputChange('amount', _)\<close>, one after the other.\<close>

definition amountUpdates :: "formData \<Rightarrow> jsstring list \<Rightarrow> formData" where
  "amountUpdates fd vs = foldl (\<lambda>d v. handleInputChange (str ''amount'') v d) fd vs"

text \<open>
  The entries that the \<open>AddSpending\<close> events of a run submit, in the order of submission,
  each built from the Draft at its submit.
\<close>

fun submitted :: "appState \<Rightarrow> event list \<Rightarrow> spending list" where
  "submitted st [] = []"
| "submitted st (AddSpending now today # evs) =
     newSpending now today (formData st) # submitted (step st (AddSpending now today)) evs"
| "submitted st (ev # evs) = submitted (step st ev) evs"

fun isAddSpending :: "event \<Rightarrow> bool" where
  "isAddSpending (AddSpending now today) = True"
| "isAddSpending ev = False"

text \<open>Every submit of the run happens while the button is enabled.\<close>

fun allSubmitsValid :: "appState \<Rightarrow> event list \<Rightarrow> bool" where
  "allSubmitsValid st [] = True"
| "allSubmitsValid st (ev # evs) =
     ((if isAddSpending ev then \<not> addButtonDisabled st else True) \<and>
      allSubmitsValid (step st ev) evs)"

section \<open>Totals and their display\<close>

text \<open>The sum \<open>x + y\<close> of two Numbers: the exact sum, rounded.\<close>

fun js_add :: "number \<Rightarrow> number \<Rightarrow> number" where
  "js_add NaN y = NaN"
| "js_add x NaN = NaN"
| "js_add PosInfinity NegInfinity = NaN"
| "js_add NegInfinity PosInfinity = NaN"
| "js_add PosInfinity y = PosInfinity"
| "js_add x PosInfinity = PosInfinity"
| "js_add NegInfinity y = NegInfinity"
| "js_add x NegInfinity = NegInfinity"
| "js_add (Finite a) (Finite b) = roundToDouble (a + b)"

text \<open>
  \<open>getTotalByCategory(category)\<close>: \<open>categorySpending\<close> is the constant of that name,
  and \<open>reduce\<close> adds the amounts from the left, starting from \<open>0\<close>.
\<close>

definition categorySpending :: "appState \<Rightarrow> jsstring \<Rightarrow> spending list" where
  "categorySpending st c =
     (if c = str ''All'' then spendings st
      else filter (\<lambda>spending. sp_category spending = c) (spendings st))"

definition getTotalByCategory :: "appState \<Rightarrow> jsstring \<Rightarrow> number" where
  "getTotalByCategory st c =
     foldl (\<lambda>total spending. js_add total (sp_amount spending)) (Finite 0)
       (categorySpending st c)"

definition digitChar :: "nat \<Rightarrow> codeunit" where
  "digitChar d = word_of_nat (48 + d)"

text \<open>The decimal digits of a natural number, \<open>0\<close> for zero.\<close>

fun decimalDigits :: "nat \<Rightarrow> jsstring" where
  "decimalDigits n =
     (if n < 10 then [digitChar n] else decimalDigits (n div 10) @ [digitChar (n mod 10)])"

text \<open>The number of decimal digits of a natural number, none for zero.\<close>

fun numDigits :: "nat \<Rightarrow> nat" where
  "numDigits n = (if n = 0 then 0 else Suc (numDigits (n div 10)))"

text \<open>For \<open>q > 0\<close>, the integer \<open>n\<close> with \<open>10^(n-1) \<le> q < 10^n\<close>.\<close>

definition decimalExponent :: "rat \<Rightarrow> int" where
  "decimalExponent q =
     (if 1 \<le> q then int (numDigits (nat \<lfloor>q\<rfloor>))
      else 1 - int (numDigits (nat (\<lceil>1 / q\<rceil> - 1))))"

text \<open>
  \<open>Number::toString\<close> writes a finite \<open>x > 0\<close> with the digits of the integer \<open>s\<close> of
  the fewest digits \<open>k\<close> such that \<open>s * 10^(n-k)\<close> rounds to \<open>x\<close>, and among several \<open>s\<close>
  the one nearest to \<open>x\<close>. The candidates with the decimal exponent \<open>e\<close> are the two
  multiples of \<open>10^e\<close> around \<open>x\<close>.
\<close>

definition digitCandidates :: "rat \<Rightarrow> int \<Rightarrow> int list" where
  "digitCandidates q e =
     (let f = \<lfloor>q / 10 powi e\<rfloor>
      in filter (\<lambda>s. roundToDouble (of_int s * 10 powi e) = Finite q) [f, f + 1])"

definition nearestCandidate :: "rat \<Rightarrow> int \<Rightarrow> int list \<Rightarrow> int option" where
  "nearestCandidate q e ss =
     (case ss of
        [] \<Rightarrow> None
      | [s] \<Rightarrow> Some s
      | s1 # s2 # _ \<Rightarrow>
          (let d1 = \<bar>of_int s1 * 10 powi e - q\<bar>; d2 = \<bar>of_int s2 * 10 powi e - q\<bar>
           in if d1 < d2 then Some s1 else if d2 < d1 then Some s2
              else if even s1 then Some s1 else Some s2))"

text \<open>
  The search for the fewest digits, from \<open>k\<close> digits on, over \<open>fuel\<close> lengths; a double
  needs 17 digits at most. The result is \<open>s\<close> and the exponent \<open>e\<close> of \<open>s * 10^e\<close>.
\<close>

fun shortestFrom :: "nat \<Rightarrow> nat \<Rightarrow> rat \<Rightarrow> (int \<times> int) option" where
  "shortestFrom 0 k q = None"
| "shortestFrom (Suc fuel) k q =
     (let e = decimalExponent q - int k
      in case nearestCandidate q e (digitCandidates q e) of
           Some s \<Rightarrow> Some (s, e)
         | None \<Rightarrow> shortestFrom fuel (Suc k) q)"

text \<open>
  The digits of \<open>s\<close> without the zeros at the end, and \<open>n\<close>; no digits for a
  rational that is not a double, which no operation of the program produces.
\<close>

definition shortestDigits :: "rat \<Rightarrow> jsstring \<times> int" where
  "shortestDigits q =
     (case shortestFrom 17 1 q of
        None \<Rightarrow> ([], 0)
      | Some (s, e) \<Rightarrow>
          (rev (dropWhile (\<lambda>c. c = 0x30) (rev (decimalDigits (nat s)))),
           e + int (numDigits (nat s))))"

definition positiveToString :: "rat \<Rightarrow> jsstring" where
  "positiveToString q =
     (let ds = fst (shortestDigits q); n = snd (shortestDigits q); k = int (length ds)
      in if k \<le> n \<and> n \<le> 21 then ds @ replicate (nat (n - k)) 0x30
         else if 0 < n \<and> n \<le> 21 then take (nat n) ds @ [DOT] @ drop (nat n) ds
         else if - 6 < n \<and> n \<le> 0 then str ''0.'' @ replicate (nat (- n)) 0x30 @ ds
         else
           (let ex = (if n - 1 < 0 then [MINUS] else [PLUS]) @ decimalDigits (nat \<bar>n - 1\<bar>)
            in if k = 1 then ds @ str ''e'' @ ex
               else take 1 ds @ [DOT] @ drop 1 ds @ str ''e'' @ ex))"

text \<open>\<open>Number::toString\<close> in radix 10.\<close>

definition numberToString :: "number \<Rightarrow> jsstring" where
  "numberToString x =
     (case x of
        NaN \<Rightarrow> str ''NaN''
      | PosInfinity \<Rightarrow> str ''Infinity''
      | NegInfinity \<Rightarrow> str ''-Infinity''
      | Finite q \<Rightarrow>
          if q = 0 then str ''0''
          else if q < 0 then [MINUS] @ positiveToString (- q)
          else positiveToString q)"

text \<open>
  \<open>x.toFixed(f)\<close>: a Number that is not finite, or whose magnitude reaches \<open>10^21\<close>, is
  written as \<open>toString\<close> writes it; otherwise the integer \<open>n\<close> nearest to \<open>x * 10^f\<close>, the
  larger one of two, is written with \<open>f\<close> digits after the point.
\<close>

definition toFixed :: "nat \<Rightarrow> number \<Rightarrow> jsstring" where
  "toFixed f x =
     (case x of
        NaN \<Rightarrow> numberToString x
      | PosInfinity \<Rightarrow> numberToString x
      | NegInfinity \<Rightarrow> numberToString x
      | Finite q \<Rightarrow>
          (let s = (if q < 0 then [MINUS] else []); a = \<bar>q\<bar>
           in if 10 ^ 21 \<le> a then s @ numberToString (Finite a)
              else
                (let n = nat \<lfloor>a * 10 ^ f + 1 / 2\<rfloor>; m = decimalDigits n
                 in if f = 0 then s @ m
                    else
                      (let m' = (if length m \<le> f then replicate (f + 1 - length m) 0x30 @ m
                                 else m);
                           k = length m'
                       in s @ take (k - f) m' @ [DOT] @ drop (k - f) m'))))"

text \<open>\<open>formatAmount(amount, currency)\<close>, the template \<open>$${amount.toFixed(2)} ${currency}\<close>.\<close>

definition formatAmount :: "number \<Rightarrow> jsstring \<Rightarrow> jsstring" where
  "formatAmount a cur = str ''$'' @ toFixed 2 a @ str '' '' @ cur"

text \<open>
  The total that is displayed for a category:
  \<open>formatAmount(getTotalByCategory(filterCategory), 'MXN')\<close>.
\<close>

definition displayedTotal :: "appState \<Rightarrow> jsstring \<Rightarrow> jsstring" where
  "displayedTotal st c = formatAmount (getTotalByCategory st c) (str ''MXN'')"

text \<open>
  A list of Numbers is added without rounding when each of them is finite and every sum
  of the left fold is a double itself.
\<close>

fun valueOf :: "number \<Rightarrow> rat" where
  "valueOf (Finite q) = q"
| "valueOf x = 0"

fun exactSum :: "rat \<Rightarrow> number list \<Rightarrow> bool" where
  "exactSum a [] = True"
| "exactSum a (Finite b # xs) = (roundToDouble (a + b) = Finite (a + b) \<and> exactSum (a + b) xs)"
| "exactSum a (x # xs) = False"

section \<open>Evaluation of concrete inputs\<close>

lemma floor_rat_numeral_div [simp]:
  "\<lfloor>numeral a / numeral b :: rat\<rfloor> = numeral a div numeral b"
  by (metis floor_divide_of_int_eq of_int_numeral)

lemma floor_rat_one_div [simp]:
  "\<lfloor>1 / numeral b :: rat\<rfloor> = 1 div numeral b"
  by (metis floor_divide_of_int_eq of_int_numeral of_int_1)

lemma ceiling_rat_numeral_div [simp]:
  "\<lceil>numeral a / numeral b :: rat\<rceil> = - (- numeral a div numeral b)"
  by (metis ceiling_divide_eq_div of_int_numeral)

lemma ceiling_rat_one_div [simp]:
  "\<lceil>1 / numeral b :: rat\<rceil> = - (- 1 div numeral b)"
  by (metis ceiling_divide_eq_div of_int_numeral of_int_1)

lemma bitlen_numeral [simp]:
  "bitlen 1 = 1"
  "bitlen (numeral (Num.Bit0 n)) = bitlen (numeral n) + 1"
  "bitlen (numeral (Num.Bit1 n)) = bitlen (numeral n) + 1"
  by (subst compute_bitlen, simp)+

declare decimalDigits.simps [simp del] numDigits.simps [simp del]

lemma decimalDigits_numeral [simp]:
  "decimalDigits 0 = [0x30]"
  "decimalDigits 1 = [0x31]"
  "decimalDigits (Suc 0) = [0x31]"
  "decimalDigits (numeral k) =
     (if (numeral k :: nat) < 10 then [digitChar (numeral k)]
      else decimalDigits (numeral k div 10) @ [digitChar (numeral k mod 10)])"
  by (subst decimalDigits.simps, simp add: digitChar_def)+

lemma numDigits_numeral [simp]:
  "numDigits 0 = 0"
  "numDigits 1 = 1"
  "numDigits (Suc 0) = 1"
  "numDigits (numeral k) = Suc (numDigits (numeral k div 10))"
  by (subst numDigits.simps, simp add: numDigits.simps [of 0])+

lemmas string_defs = str_def isDigit_def DOT_def PLUS_def MINUS_def isExponentIndicator_def
  isWhiteSpace_def

lemmas number_defs = roundToDouble_def roundPos_def floorLog2_def roundHalfEven_def

lemmas parse_defs = parseFloat_def strDecimalLiteral_def strUnsignedDecimalLiteral_def
  decimalValue_def exponentPart_def signedInteger_def digitsValue_def

lemmas form_defs = handleInputChange_def setProp_def stripNonNumeric_def toggleCurrency_def
  initialFormData_def initialState_def

lemmas commit_defs = addSpending_def newSpending_def isFormValid_def addButtonDisabled_def
  trim_def run_def typeAmount_def typeAmountKey_def amountUpdates_def

lemma shortestFrom_numeral:
  "shortestFrom (numeral k) j q =
     (let e = decimalExponent q - int j
      in case nearestCandidate q e (digitCandidates q e) of
           Some s \<Rightarrow> Some (s, e)
         | None \<Rightarrow> shortestFrom (pred_numeral k) (Suc j) q)"
  by (simp add: numeral_eq_Suc)

text \<open>The rounding at some known doubles.\<close>

lemma parseFloat_10: "parseFloat (str ''10'') = Finite 10"
  by (simp add: string_defs parse_defs number_defs)

lemma parseFloat_2_5: "parseFloat (str ''2.5'') = Finite (5 / 2)"
  by (simp add: string_defs parse_defs number_defs)

lemma parseFloat_0: "parseFloat (str ''0'') = Finite 0"
  by (simp add: string_defs parse_defs number_defs)

lemma parseFloat_dot: "parseFloat (str ''.'') = NaN"
  by (simp add: string_defs parse_defs)

lemma parseFloat_0_1:
  "parseFloat (str ''0.1'') = Finite (3602879701896397 / 36028797018963968)"
  by (simp add: string_defs parse_defs number_defs)

lemma parseFloat_ties_to_even:
  "parseFloat (str ''9007199254740993'') = Finite 9007199254740992"
  by (simp add: string_defs parse_defs number_defs)

lemma parseFloat_underflow: "parseFloat (str ''1e-400'') = Finite 0"
  by (simp add: string_defs parse_defs number_defs)

lemma parseFloat_overflow: "parseFloat (str ''1e400'') = PosInfinity"
  by (simp add: string_defs parse_defs number_defs)

lemma parseFloat_prefix: "parseFloat (str '' -12.5e-1x'') = Finite (- (5 / 4))"
  by (simp add: string_defs parse_defs number_defs)

lemma parseFloat_1: "parseFloat (str ''1'') = Finite 1"
  by (simp add: string_defs parse_defs number_defs)

lemma parseFloat_20: "parseFloat (str ''20'') = Finite 20"
  by (simp add: string_defs parse_defs number_defs)

lemma parseFloat_30: "parseFloat (str ''30'') = Finite 30"
  by (simp add: string_defs parse_defs number_defs)

lemma parseFloat_2_53: "parseFloat (str ''9007199254740992'') = Finite 9007199254740992"
  by (simp add: string_defs parse_defs number_defs)

lemma parseFloat_1e21:
  "parseFloat (str ''1000000000000000000000'') = Finite 1000000000000000000000"
  by (simp add: string_defs parse_defs number_defs)

lemmas parse_eval =
  parseFloat_10 [unfolded str_def, simplified]
  parseFloat_2_5 [unfolded str_def, simplified]
  parseFloat_0 [unfolded str_def, simplified]
  parseFloat_dot [unfolded str_def, simplified]
  parseFloat_1 [unfolded str_def, simplified]
  parseFloat_20 [unfolded str_def, simplified]
  parseFloat_30 [unfolded str_def, simplified]
  parseFloat_2_53 [unfolded str_def, simplified]
  parseFloat_1e21 [unfolded str_def, simplified]

section \<open>Properties of the rounding\<close>

text \<open>
  \<open>floorLog2\<close> is the binary exponent, \<open>roundHalfEven\<close> is within a half of its
  argument, and a finite result of \<open>roundPos\<close> is within half a unit in the last place.
\<close>

lemma floorLog2_ge1:
  assumes "1 \<le> q"
  shows "2 powi (floorLog2 q) \<le> q \<and> q < 2 powi (floorLog2 q + 1)"
proof -
  define f where "f = \<lfloor>q\<rfloor>"
  have f1: "1 \<le> f" using assms by (simp add: f_def le_floor_iff)
  then have f0: "0 < f" by simp
  have b: "2 ^ nat (bitlen f - 1) \<le> f" "f < 2 ^ nat (bitlen f)"
    using bitlen_bounds [OF f0] by simp_all
  have bl: "1 \<le> bitlen f" using f0 by (simp add: bitlen_alt_def)
  have e: "floorLog2 q = bitlen f - 1" using assms by (simp add: floorLog2_def f_def)
  have "of_int f \<le> q" by (simp add: f_def)
  moreover have "(2::rat) ^ nat (bitlen f - 1) \<le> of_int f"
    using b(1) by (metis of_int_le_iff of_int_numeral of_int_power)
  ultimately have lo: "(2::rat) ^ nat (bitlen f - 1) \<le> q" by linarith
  have "f + 1 \<le> 2 ^ nat (bitlen f)" using b(2) by simp
  then have "(of_int (f + 1) :: rat) \<le> 2 ^ nat (bitlen f)"
    by (metis of_int_le_iff of_int_numeral of_int_power)
  moreover have "q < of_int (f + 1)" unfolding f_def by linarith
  ultimately have hi: "q < (2::rat) ^ nat (bitlen f)" by linarith
  from lo hi bl show ?thesis
    by (simp add: e power_int_def)
qed

lemma floorLog2_lt1:
  assumes "0 < q" "q < 1"
  shows "2 powi (floorLog2 q) \<le> q \<and> q < 2 powi (floorLog2 q + 1)"
proof -
  define c where "c = \<lceil>1 / q\<rceil> - 1"
  have y: "1 < 1 / q" using assms by simp
  then have c1: "1 \<le> c" unfolding c_def by (simp add: less_ceiling_iff)
  then have c0: "0 < c" by simp
  have b: "2 ^ nat (bitlen c - 1) \<le> c" "c < 2 ^ nat (bitlen c)"
    using bitlen_bounds [OF c0] by simp_all
  have bl: "1 \<le> bitlen c" using c0 by (simp add: bitlen_alt_def)
  have e: "floorLog2 q = - bitlen c" using assms by (simp add: floorLog2_def c_def)
  have "of_int c < 1 / q" unfolding c_def by linarith
  moreover have "(2::rat) ^ nat (bitlen c - 1) \<le> of_int c"
    using b(1) by (metis of_int_le_iff of_int_numeral of_int_power)
  ultimately have lo: "(2::rat) ^ nat (bitlen c - 1) < 1 / q" by linarith
  have "c + 1 \<le> 2 ^ nat (bitlen c)" using b(2) by simp
  then have "(of_int (c + 1) :: rat) \<le> 2 ^ nat (bitlen c)"
    by (metis of_int_le_iff of_int_numeral of_int_power)
  moreover have "1 / q \<le> of_int (c + 1)" unfolding c_def by linarith
  ultimately have hi: "1 / q \<le> (2::rat) ^ nat (bitlen c)" by linarith
  have p: "(0::rat) < 2 ^ nat (bitlen c)" "(0::rat) < 2 ^ nat (bitlen c - 1)" by simp_all
  from hi assms(1) p(1) have A: "1 / 2 ^ nat (bitlen c) \<le> q"
    by (simp add: field_simps)
  from lo assms(1) p(2) have B: "q < 1 / 2 ^ nat (bitlen c - 1)"
    by (simp add: field_simps)
  have n: "nat (bitlen c - 1) = nat (bitlen c) - 1" using bl by simp
  from A B bl show ?thesis
    by (auto simp add: e power_int_def power_one_over)
qed


lemma floorLog2_bounds:
  "0 < q \<Longrightarrow> 2 powi (floorLog2 q) \<le> q \<and> q < 2 powi (floorLog2 q + 1)"
  using floorLog2_ge1 [of q] floorLog2_lt1 [of q] by (cases "1 \<le> q") auto

lemma roundHalfEven_nearest: "\<bar>of_int (roundHalfEven m) - m\<bar> \<le> 1 / 2"
proof -
  have "of_int \<lfloor>m\<rfloor> \<le> m" "m < of_int \<lfloor>m\<rfloor> + 1" by linarith+
  then show ?thesis
    unfolding roundHalfEven_def Let_def by (auto simp add: abs_le_iff)
qed

lemma roundPos_error:
  assumes "0 < q" and "roundPos q = Finite r"
  shows "\<bar>r - q\<bar> \<le> 2 powi (max (floorLog2 q) (- 1022) - 52) / 2"
proof -
  define u :: rat where "u = 2 powi (max (floorLog2 q) (- 1022) - 52)"
  have u0: "0 < u" by (simp add: u_def)
  from assms(2) have r: "r = of_int (roundHalfEven (q / u)) * u"
    by (simp add: roundPos_def Let_def u_def split: if_splits)
  have "\<bar>of_int (roundHalfEven (q / u)) - q / u\<bar> \<le> 1 / 2" by (rule roundHalfEven_nearest)
  then have A: "\<bar>of_int (roundHalfEven (q / u)) - q / u\<bar> * u \<le> 1 / 2 * u"
    using u0 by (simp add: mult_right_mono)
  have "(of_int (roundHalfEven (q / u)) - q / u) * u = r - q"
    using u0 by (simp add: r field_simps)
  then have "\<bar>r - q\<bar> = \<bar>of_int (roundHalfEven (q / u)) - q / u\<bar> * \<bar>u\<bar>"
    by (metis abs_mult)
  then have B: "\<bar>of_int (roundHalfEven (q / u)) - q / u\<bar> * u = \<bar>r - q\<bar>"
    using u0 by simp
  from A B have "\<bar>r - q\<bar> \<le> u / 2" by simp
  then show ?thesis by (simp only: u_def)
qed

lemma roundHalfEven_nonneg: "0 \<le> m \<Longrightarrow> 0 \<le> roundHalfEven m"
  unfolding roundHalfEven_def Let_def by auto

lemma roundPos_nonneg:
  "0 < q \<Longrightarrow> roundPos q = PosInfinity \<or> (\<exists>r. 0 \<le> r \<and> roundPos q = Finite r)"
  unfolding roundPos_def Let_def by (auto simp add: roundHalfEven_nonneg)

text \<open>Some sums and renderings, as an engine prints them.\<close>

lemma js_add_0_1_0_2:
  "js_add (parseFloat (str ''0.1'')) (parseFloat (str ''0.2'')) =
     Finite (1351079888211149 / 4503599627370496)"
  by (simp add: string_defs parse_defs number_defs)

lemma toFixed_1_005: "toFixed 2 (parseFloat (str ''1.005'')) = str ''1.00''"
  by (simp add: string_defs parse_defs number_defs toFixed_def digitChar_def)

lemma toFixed_0_125: "toFixed 2 (parseFloat (str ''0.125'')) = str ''0.13''"
  by (simp add: string_defs parse_defs number_defs toFixed_def digitChar_def)

section \<open>Properties of the handlers\<close>

lemma str_neq [simp]:
  "str ''amount'' \<noteq> str ''note''"
  "str ''note'' \<noteq> str ''amount''"
  "str ''category'' \<noteq> str ''amount''"
  "str ''category'' \<noteq> str ''note''"
  by (simp_all add: str_def)

lemma length_split: "length (split sep s) = Suc (length (filter (\<lambda>c. c = sep) s))"
  by (induction s) (auto split: list.splits)

lemma handleInputChange_amount:
  "handleInputChange (str ''amount'') v fd =
     (if 2 \<le> length (filter (\<lambda>c. c = DOT) (stripNonNumeric v)) then fd
      else fd\<lparr>amount := stripNonNumeric v\<rparr>)"
  by (auto simp add: handleInputChange_def Let_def length_split)

lemma handleInputChange_note:
  "handleInputChange (str ''note'') v fd = (if length v \<le> 140 then fd\<lparr>note := v\<rparr> else fd)"
  by (simp add: handleInputChange_def)

lemma handleInputChange_category:
  "handleInputChange (str ''category'') v fd = fd\<lparr>category := v\<rparr>"
  by (simp add: handleInputChange_def setProp_def)

lemma amount_handleInputChange:
  assumes "\<forall>c \<in> set (amount fd). isDigit c \<or> c = DOT"
    and "length (filter (\<lambda>c. c = DOT) (amount fd)) \<le> 1"
  shows "(\<forall>c \<in> set (amount (handleInputChange field v fd)). isDigit c \<or> c = DOT) \<and>
         length (filter (\<lambda>c. c = DOT) (amount (handleInputChange field v fd))) \<le> 1"
  using assms unfolding handleInputChange_def setProp_def
  by (auto simp add: Let_def length_split stripNonNumeric_def)

lemma note_handleInputChange:
  "length (note fd) \<le> 140 \<Longrightarrow> length (note (handleInputChange field v fd)) \<le> 140"
  unfolding handleInputChange_def setProp_def by (auto simp add: Let_def)

lemma js_gt_not_le: "js_gt x (Finite 0) \<Longrightarrow> \<not> js_le x (Finite 0)"
  by (cases x) auto

lemma length_trim: "length (trim s) \<le> length s"
  unfolding trim_def by (metis length_dropWhile_le length_rev le_trans)

lemma addSpending_alert_iff:
  "fst (addSpending now today st) \<noteq> None \<longleftrightarrow>
     amount (formData st) = [] \<or> js_le (parseFloat (amount (formData st))) (Finite 0)"
  by (simp add: addSpending_def)

lemma addSpending_alert_state:
  "fst (addSpending now today st) \<noteq> None \<Longrightarrow> snd (addSpending now today st) = st"
  by (auto simp add: addSpending_def split: if_splits)

lemma addSpending_enabled:
  "\<not> addButtonDisabled st \<Longrightarrow>
   addSpending now today st =
     (None, st\<lparr>spendings := newSpending now today (formData st) # spendings st,
                formData := initialFormData\<rparr>)"
  by (auto simp add: addButtonDisabled_def isFormValid_def addSpending_def js_gt_not_le
      split: if_splits)

lemma spendings_step:
  "spendings (step st ev) = spendings st \<or> (\<exists>e. spendings (step st ev) = e # spendings st)"
  by (cases ev) (auto simp add: addSpending_def)

lemma run_Cons: "run st (ev # evs) = run (step st ev) evs"
  by (simp add: run_def)

lemma run_append: "run st (xs @ ys) = run (run st xs) ys"
  by (simp add: run_def)

lemma spendings_run_suffix: "\<exists>new. spendings (run st evs) = new @ spendings st"
proof (induction evs arbitrary: st)
  case Nil
  show ?case by (simp add: run_def)
next
  case (Cons ev evs)
  obtain new where n: "spendings (run (step st ev) evs) = new @ spendings (step st ev)"
    using Cons.IH by blast
  from spendings_step [of st ev] show ?case
  proof
    assume "spendings (step st ev) = spendings st"
    with n show ?thesis by (auto simp add: run_Cons)
  next
    assume "\<exists>e. spendings (step st ev) = e # spendings st"
    then obtain e where "spendings (step st ev) = e # spendings st" ..
    with n have "spendings (run st (ev # evs)) = (new @ [e]) @ spendings st"
      by (simp add: run_Cons)
    then show ?thesis by blast
  qed
qed

lemma spendings_run_submitted:
  "allSubmitsValid st evs \<Longrightarrow> spendings (run st evs) = rev (submitted st evs) @ spendings st"
proof (induction evs arbitrary: st)
  case Nil
  show ?case by (simp add: run_def)
next
  case (Cons ev evs)
  then have IH: "spendings (run (step st ev) evs) =
      rev (submitted (step st ev) evs) @ spendings (step st ev)"
    by simp
  show ?case
  proof (cases ev)
    case (AddSpending now today)
    with Cons.prems have "\<not> addButtonDisabled st" by simp
    then have "spendings (step st ev) = newSpending now today (formData st) # spendings st"
      using AddSpending by (simp add: addSpending_enabled)
    with IH AddSpending show ?thesis by (simp add: run_Cons)
  qed (use IH in \<open>simp_all add: run_Cons\<close>)
qed

lemma length_submitted: "length (submitted st evs) = length (filter isAddSpending evs)"
  by (induction st evs rule: submitted.induct) simp_all

text \<open>What holds of the note in every state that the events lead to.\<close>

lemma note_step:
  assumes "length (note (formData st)) \<le> 140"
    and "\<forall>e \<in> set (spendings st). length (sp_note e) \<le> 140"
  shows "length (note (formData (step st ev))) \<le> 140 \<and>
         (\<forall>e \<in> set (spendings (step st ev)). length (sp_note e) \<le> 140)"
proof (cases ev)
  case (InputChange field v)
  with assms show ?thesis by (simp add: note_handleInputChange)
next
  case (AddSpending now today)
  have "length (trim (note (formData st))) \<le> 140"
    using length_trim [of "note (formData st)"] assms(1) by simp
  with assms AddSpending show ?thesis
    by (auto simp add: addSpending_def newSpending_def initialFormData_def)
qed (use assms in \<open>simp_all add: toggleCurrency_def\<close>)

lemma note_run:
  assumes "length (note (formData st)) \<le> 140"
    and "\<forall>e \<in> set (spendings st). length (sp_note e) \<le> 140"
  shows "length (note (formData (run st evs))) \<le> 140 \<and>
         (\<forall>e \<in> set (spendings (run st evs)). length (sp_note e) \<le> 140)"
  using assms
proof (induction evs arbitrary: st)
  case Nil
  then show ?case by (simp add: run_def)
next
  case (Cons ev evs)
  have s: "length (note (formData (step st ev))) \<le> 140"
    "\<forall>e \<in> set (spendings (step st ev)). length (sp_note e) \<le> 140"
    using note_step [OF Cons.prems] by simp_all
  show ?case using Cons.IH [OF s] by (simp add: run_Cons)
qed

text \<open>
  What the guard of \<open>addSpending\<close> does ensure: no amount of the Ledger compares
  \<open><= 0\<close>.
\<close>

lemma ledger_amounts_not_le_zero:
  "\<forall>e \<in> set (spendings st). \<not> js_le (sp_amount e) (Finite 0) \<Longrightarrow>
   \<forall>e \<in> set (spendings (run st evs)). \<not> js_le (sp_amount e) (Finite 0)"
proof (induction evs arbitrary: st)
  case Nil
  then show ?case by (simp add: run_def)
next
  case (Cons ev evs)
  have "\<forall>e \<in> set (spendings (step st ev)). \<not> js_le (sp_amount e) (Finite 0)"
    using Cons.prems by (cases ev) (auto simp add: addSpending_def newSpending_def)
  from Cons.IH [OF this] show ?case by (simp add: run_Cons)
qed

section \<open>The claims\<close>

text \<open>
  C1. The alert is raised exactly when the amount is empty or \<open>parseFloat\<close> of it
  compares \<open><= 0\<close>. An amount that does not parse gives \<open>NaN\<close>, for which the
  comparison is false: with the amount \<open>.\<close>, which the amount field accepts and for
  which the button is disabled, a call of \<open>addSpending\<close> raises no alert and commits an
  entry whose amount is \<open>NaN\<close>.
\<close>

theorem addSpending_unparsable_amount_commits:
  "formData (run initialState [InputChange (str ''amount'') (str ''.'')]) =
     initialFormData\<lparr>amount := str ''.''\<rparr> \<and>
   parseFloat (str ''.'') = NaN \<and>
   addButtonDisabled (run initialState [InputChange (str ''amount'') (str ''.'')]) \<and>
   addSpending 0 (str ''1/1/2025'') (run initialState [InputChange (str ''amount'') (str ''.'')]) =
     (None,
      \<lparr>spendings =
         [\<lparr>sp_id = 0, sp_category = str ''General'', sp_amount = NaN,
           sp_currency = str ''MXN'', sp_note = [], sp_date = str ''1/1/2025''\<rparr>],
       filterCategory = str ''All'',
       formData = initialFormData\<rparr>)"
  by (simp add: string_defs form_defs commit_defs parse_eval)

text \<open>
  C2. A state that the events reach from the initial state holds an entry whose amount
  is not \<open>> 0\<close>: the amount \<open>.\<close> is typed and \<open>addSpending\<close> is called.
\<close>

theorem reachable_ledger_entry_not_positive:
  "map sp_amount
     (spendings (run initialState
        [InputChange (str ''amount'') (str ''.''), AddSpending 0 (str ''1/1/2025'')])) = [NaN] \<and>
   \<not> js_gt NaN (Finite 0)"
  by (simp add: string_defs form_defs commit_defs parse_eval)

text \<open>
  C3, as the claim states it, fails: a note of 141 code units is not cut to its first 140,
  the update is dropped and the note stays what it was; and the note that is committed is
  the trimmed one, which differs from the input when the input starts or ends with white
  space.
\<close>

theorem note_update_not_truncated:
  "handleInputChange (str ''note'') (replicate 141 0x61) initialFormData = initialFormData \<and>
   note initialFormData \<noteq> take 140 (replicate 141 0x61) \<and>
   map sp_note
     (spendings (run initialState
        [InputChange (str ''note'') (str '' a''), InputChange (str ''amount'') (str ''10''),
         AddSpending 0 (str ''1/1/2025'')])) = [str ''a''] \<and>
   str ''a'' \<noteq> take 140 (str '' a'')"
  by (simp add: string_defs form_defs commit_defs parse_eval)

text \<open>
  C3, amended. A note update with at most 140 code units sets the note to the input and
  changes nothing else; a longer one leaves the Draft as it is. A commit that raises no
  alert stores, at the head of the Ledger, the note of the Draft trimmed. In every state
  that the events reach from the initial state, the note of the Draft and the note of
  every entry have at most 140 code units.
\<close>

theorem note_update_accepts_or_rejects:
  "(length s \<le> 140 \<longrightarrow> handleInputChange (str ''note'') s fd = fd\<lparr>note := s\<rparr>) \<and>
   (140 < length s \<longrightarrow> handleInputChange (str ''note'') s fd = fd) \<and>
   (fst (addSpending now today st) = None \<longrightarrow>
      map sp_note (spendings (snd (addSpending now today st))) =
        trim (note (formData st)) # map sp_note (spendings st)) \<and>
   length (note (formData (run initialState evs))) \<le> 140 \<and>
   (\<forall>e \<in> set (spendings (run initialState evs)). length (sp_note e) \<le> 140)"
proof -
  have "length (note (formData initialState)) \<le> 140"
    and "\<forall>e \<in> set (spendings initialState). length (sp_note e) \<le> 140"
    by (simp_all add: initialState_def initialFormData_def)
  from note_run [OF this, of evs] show ?thesis
    by (auto simp add: handleInputChange_note addSpending_def newSpending_def)
qed

theorem note_update_accepts_or_rejects_witness:
  "length (str ''lunch '') \<le> 140 \<and>
   handleInputChange (str ''note'') (str ''lunch '') initialFormData =
     initialFormData\<lparr>note := str ''lunch ''\<rparr> \<and>
   140 < length (replicate 141 (0x61 :: codeunit)) \<and>
   handleInputChange (str ''note'') (replicate 141 0x61) initialFormData = initialFormData \<and>
   fst (addSpending 0 (str ''1/1/2025'')
          (run initialState
             [InputChange (str ''note'') (str ''lunch ''),
              InputChange (str ''amount'') (str ''10'')])) = None \<and>
   spendings (run initialState
      [InputChange (str ''note'') (str ''lunch ''), InputChange (str ''amount'') (str ''10''),
       AddSpending 0 (str ''1/1/2025'')]) =
     [\<lparr>sp_id = 0, sp_category = str ''General'', sp_amount = Finite 10,
       sp_currency = str ''MXN'', sp_note = str ''lunch'', sp_date = str ''1/1/2025''\<rparr>] \<and>
   length (str ''lunch'') \<le> 140"
  using note_update_accepts_or_rejects
    [of "str ''lunch ''" initialFormData 0 "str ''1/1/2025''"
        "run initialState
           [InputChange (str ''note'') (str ''lunch ''),
            InputChange (str ''amount'') (str ''10'')]"
        "[InputChange (str ''note'') (str ''lunch ''), InputChange (str ''amount'') (str ''10''),
          AddSpending 0 (str ''1/1/2025'')]"]
    note_update_accepts_or_rejects [of "replicate 141 0x61" initialFormData]
  by (simp add: string_defs form_defs commit_defs parse_eval)

text \<open>
  C4. The keys \<open>123.45.67\<close> typed into the amount field, one after the other: the
  second \<open>.\<close> is dropped and the field keeps \<open>123.45\<close>, but the two digits typed after
  it are appended to that value, so the field ends as \<open>123.4567\<close>.
\<close>

theorem typing_after_second_dot:
  "amount (formData (typeAmount initialState (str ''123.45.''))) = str ''123.45'' \<and>
   amount (formData (typeAmount initialState (str ''123.45.67''))) = str ''123.4567''"
  by (simp add: string_defs form_defs commit_defs)

text \<open>
  Only a handler that were given the successive prefixes of the typed text, whatever the
  field shows, would end with \<open>123.45\<close>.
\<close>

lemma amount_prefixes_of_typed_text:
  "amount (amountUpdates initialFormData
     [str ''1'', str ''12'', str ''123'', str ''123.'', str ''123.4'', str ''123.45'',
      str ''123.45.'', str ''123.45.6'', str ''123.45.67'']) = str ''123.45''"
  by (simp add: string_defs form_defs commit_defs)

text \<open>
  C5. The button is enabled if and only if the amount is not the empty string and
  \<open>parseFloat\<close> of it is \<open>> 0\<close>.
\<close>

theorem add_button_enabled_iff:
  "(\<not> addButtonDisabled st) =
     (amount (formData st) \<noteq> [] \<and> js_gt (parseFloat (amount (formData st))) (Finite 0))"
  by (simp add: addButtonDisabled_def isFormValid_def)

theorem add_button_enabled_iff_witness:
  "\<not> addButtonDisabled (run initialState [InputChange (str ''amount'') (str ''2.5'')]) \<and>
   addButtonDisabled (run initialState [InputChange (str ''amount'') (str ''0'')]) \<and>
   addButtonDisabled initialState"
  using add_button_enabled_iff [of "run initialState [InputChange (str ''amount'') (str ''2.5'')]"]
    add_button_enabled_iff [of "run initialState [InputChange (str ''amount'') (str ''0'')]"]
    add_button_enabled_iff [of initialState]
  by (simp add: string_defs form_defs run_def parse_eval)

text \<open>
  C6. In a run from the initial state in which every submit happens while the button is
  enabled, the Ledger is the list of the submitted entries in reverse order of
  submission, its length is the number of submits, and the Ledger after each prefix of
  the run is a suffix of the final one: no entry is changed or removed.
\<close>

theorem ledger_reverse_submission_order:
  assumes "allSubmitsValid initialState evs"
  shows "spendings (run initialState evs) = rev (submitted initialState evs) \<and>
         length (spendings (run initialState evs)) = length (filter isAddSpending evs) \<and>
         (\<forall>k \<le> length evs. \<exists>new.
            spendings (run initialState evs) = new @ spendings (run initialState (take k evs)))"
proof -
  have a: "spendings (run initialState evs) = rev (submitted initialState evs)"
    using spendings_run_submitted [OF assms] by (simp add: initialState_def)
  have c: "\<exists>new. spendings (run initialState evs) =
      new @ spendings (run initialState (take k evs))" for k
  proof -
    have "run initialState evs = run (run initialState (take k evs)) (drop k evs)"
      by (metis append_take_drop_id run_append)
    then show ?thesis using spendings_run_suffix by simp
  qed
  from a c show ?thesis by (simp add: length_submitted)
qed

theorem ledger_reverse_submission_order_witness:
  "allSubmitsValid initialState
     [InputChange (str ''amount'') (str ''10''), AddSpending 1 (str ''1/1/2025''),
      InputChange (str ''category'') (str ''Auto''), InputChange (str ''amount'') (str ''2.5''),
      ToggleCurrency, InputChange (str ''note'') (str '' gas ''),
      AddSpending 2 (str ''2/1/2025'')] \<and>
   spendings (run initialState
     [InputChange (str ''amount'') (str ''10''), AddSpending 1 (str ''1/1/2025''),
      InputChange (str ''category'') (str ''Auto''), InputChange (str ''amount'') (str ''2.5''),
      ToggleCurrency, InputChange (str ''note'') (str '' gas ''),
      AddSpending 2 (str ''2/1/2025'')]) =
     [\<lparr>sp_id = 2, sp_category = str ''Auto'', sp_amount = Finite (5 / 2),
       sp_currency = str ''USD'', sp_note = str ''gas'', sp_date = str ''2/1/2025''\<rparr>,
      \<lparr>sp_id = 1, sp_category = str ''General'', sp_amount = Finite 10,
       sp_currency = str ''MXN'', sp_note = [], sp_date = str ''1/1/2025''\<rparr>] \<and>
   rev (submitted initialState
     [InputChange (str ''amount'') (str ''10''), AddSpending 1 (str ''1/1/2025''),
      InputChange (str ''category'') (str ''Auto''), InputChange (str ''amount'') (str ''2.5''),
      ToggleCurrency, InputChange (str ''note'') (str '' gas ''),
      AddSpending 2 (str ''2/1/2025'')]) =
     [\<lparr>sp_id = 2, sp_category = str ''Auto'', sp_amount = Finite (5 / 2),
       sp_currency = str ''USD'', sp_note = str ''gas'', sp_date = str ''2/1/2025''\<rparr>,
      \<lparr>sp_id = 1, sp_category = str ''General'', sp_amount = Finite 10,
       sp_currency = str ''MXN'', sp_note = [], sp_date = str ''1/1/2025''\<rparr>]"
proof -
  have v: "allSubmitsValid initialState
     [InputChange (str ''amount'') (str ''10''), AddSpending 1 (str ''1/1/2025''),
      InputChange (str ''category'') (str ''Auto''), InputChange (str ''amount'') (str ''2.5''),
      ToggleCurrency, InputChange (str ''note'') (str '' gas ''),
      AddSpending 2 (str ''2/1/2025'')]"
    by (simp add: string_defs form_defs commit_defs parse_eval)
  show ?thesis
    using v ledger_reverse_submission_order [OF v]
    by (simp add: string_defs form_defs commit_defs parse_eval)
qed

text \<open>
  C7. After any sequence of amount updates from the initial Draft, the amount holds only
  digits and \<open>.\<close>, and at most one \<open>.\<close>. Each update strips the value of every other
  code unit; when two or more \<open>.\<close> remain the Draft stays as it is, otherwise the
  stripped text becomes the amount.
\<close>

theorem amount_digits_and_one_dot:
  "(\<forall>c \<in> set (amount (amountUpdates initialFormData vs)). isDigit c \<or> c = DOT) \<and>
   length (filter (\<lambda>c. c = DOT) (amount (amountUpdates initialFormData vs))) \<le> 1 \<and>
   (\<forall>v fd. handleInputChange (str ''amount'') v fd =
      (if 2 \<le> length (filter (\<lambda>c. c = DOT) (filter (\<lambda>c. isDigit c \<or> c = DOT) v)) then fd
       else fd\<lparr>amount := filter (\<lambda>c. isDigit c \<or> c = DOT) v\<rparr>))"
proof -
  have inv: "(\<forall>c \<in> set (amount fd). isDigit c \<or> c = DOT) \<and>
        length (filter (\<lambda>c. c = DOT) (amount fd)) \<le> 1 \<Longrightarrow>
      (\<forall>c \<in> set (amount (amountUpdates fd vs)). isDigit c \<or> c = DOT) \<and>
        length (filter (\<lambda>c. c = DOT) (amount (amountUpdates fd vs))) \<le> 1" for fd
  proof (induction vs arbitrary: fd)
    case Nil
    then show ?case by (simp add: amountUpdates_def)
  next
    case (Cons v vs)
    have "amountUpdates fd (v # vs) = amountUpdates (handleInputChange (str ''amount'') v fd) vs"
      by (simp add: amountUpdates_def)
    moreover have "(\<forall>c \<in> set (amount (handleInputChange (str ''amount'') v fd)).
          isDigit c \<or> c = DOT) \<and>
        length (filter (\<lambda>c. c = DOT) (amount (handleInputChange (str ''amount'') v fd))) \<le> 1"
      using Cons.prems amount_handleInputChange by blast
    ultimately show ?case using Cons.IH by simp
  qed
  have "(\<forall>c \<in> set (amount initialFormData). isDigit c \<or> c = DOT) \<and>
      length (filter (\<lambda>c. c = DOT) (amount initialFormData)) \<le> 1"
    by (simp add: initialFormData_def)
  from inv [OF this] show ?thesis
    using handleInputChange_amount by (simp add: stripNonNumeric_def)
qed

theorem amount_digits_and_one_dot_witness:
  "amount (amountUpdates initialFormData [str ''$12a.5'', str ''1.2.3'', str ''7.x'']) = str ''7.'' \<and>
   list_all (\<lambda>c. isDigit c \<or> c = DOT) (str ''7.'') \<and>
   length (filter (\<lambda>c. c = DOT) (str ''7.'')) = 1 \<and>
   amount (amountUpdates initialFormData [str ''$12a.5'', str ''1.2.3'']) = str ''12.5''"
  using amount_digits_and_one_dot [of "[str ''$12a.5'', str ''1.2.3'', str ''7.x'']"]
  by (simp add: string_defs form_defs commit_defs)

text \<open>
  C9. \<open>handleInputChange('category', v)\<close> stores any \<open>v\<close> as the category and changes
  nothing else, and a commit that follows with an amount that parses to a number \<open>> 0\<close>
  raises no alert and puts an entry with the category \<open>v\<close> at the head of the Ledger.
\<close>

theorem category_stored_unvalidated:
  assumes "amount (formData st) \<noteq> []"
    and "js_gt (parseFloat (amount (formData st))) (Finite 0)"
  shows "handleInputChange (str ''category'') v (formData st) = (formData st)\<lparr>category := v\<rparr> \<and>
         fst (addSpending now today (step st (InputChange (str ''category'') v))) = None \<and>
         spendings (snd (addSpending now today (step st (InputChange (str ''category'') v)))) =
           \<lparr>sp_id = now, sp_category = v, sp_amount = parseFloat (amount (formData st)),
            sp_currency = currency (formData st), sp_note = trim (note (formData st)),
            sp_date = today\<rparr> # spendings st"
  using assms js_gt_not_le
  by (simp add: handleInputChange_category addSpending_def newSpending_def)

theorem category_stored_unvalidated_witness:
  "amount (formData (run initialState [InputChange (str ''amount'') (str ''10'')])) \<noteq> [] \<and>
   js_gt (parseFloat (amount (formData
       (run initialState [InputChange (str ''amount'') (str ''10'')])))) (Finite 0) \<and>
   spendings (run initialState
      [InputChange (str ''amount'') (str ''10''), InputChange (str ''category'') (str ''Boat''),
       AddSpending 7 (str ''1/1/2025'')]) =
     [\<lparr>sp_id = 7, sp_category = str ''Boat'', sp_amount = Finite 10,
       sp_currency = str ''MXN'', sp_note = [], sp_date = str ''1/1/2025''\<rparr>]"
proof -
  have a: "amount (formData (run initialState [InputChange (str ''amount'') (str ''10'')])) \<noteq> []"
    by (simp add: string_defs form_defs commit_defs)
  have b: "js_gt (parseFloat (amount (formData
       (run initialState [InputChange (str ''amount'') (str ''10'')])))) (Finite 0)"
    by (simp add: string_defs form_defs commit_defs parse_eval)
  show ?thesis
    using a b category_stored_unvalidated [OF a b, of "str ''Boat''" 7 "str ''1/1/2025''"]
    by (simp add: string_defs form_defs commit_defs parse_eval)
qed

text \<open>
  C10. An amount update whose stripped text holds two or more \<open>.\<close>, and a note update
  of more than 140 code units, leave the whole Draft, and the whole state, as they were.
\<close>

theorem rejected_update_leaves_draft:
  "(2 \<le> length (filter (\<lambda>c. c = DOT) (stripNonNumeric v)) \<longrightarrow>
      handleInputChange (str ''amount'') v fd = fd \<and>
      step st (InputChange (str ''amount'') v) = st) \<and>
   (140 < length v \<longrightarrow>
      handleInputChange (str ''note'') v fd = fd \<and>
      step st (InputChange (str ''note'') v) = st)"
  by (simp add: handleInputChange_amount handleInputChange_note)

theorem rejected_update_leaves_draft_witness:
  "2 \<le> length (filter (\<lambda>c. c = DOT) (stripNonNumeric (str ''1.2.3''))) \<and>
   handleInputChange (str ''amount'') (str ''1.2.3'')
     \<lparr>category = str ''Auto'', amount = str ''7'', currency = str ''USD'', note = str ''gas'',
      other = []\<rparr> =
     \<lparr>category = str ''Auto'', amount = str ''7'', currency = str ''USD'', note = str ''gas'',
      other = []\<rparr> \<and>
   140 < length (replicate 141 (0x61 :: codeunit)) \<and>
   handleInputChange (str ''note'') (replicate 141 0x61)
     \<lparr>category = str ''Auto'', amount = str ''7'', currency = str ''USD'', note = str ''gas'',
      other = []\<rparr> =
     \<lparr>category = str ''Auto'', amount = str ''7'', currency = str ''USD'', note = str ''gas'',
      other = []\<rparr>"
  using rejected_update_leaves_draft
    [of "str ''1.2.3''"
      "\<lparr>category = str ''Auto'', amount = str ''7'', currency = str ''USD'', note = str ''gas'',
        other = []\<rparr>" initialState]
    rejected_update_leaves_draft
    [of "replicate 141 0x61"
      "\<lparr>category = str ''Auto'', amount = str ''7'', currency = str ''USD'', note = str ''gas'',
        other = []\<rparr>" initialState]
  by (simp add: string_defs stripNonNumeric_def)

section \<open>Totals\<close>

lemma foldl_js_add_exact:
  "exactSum a xs \<Longrightarrow> foldl js_add (Finite a) xs = Finite (a + sum_list (map valueOf xs))"
proof (induction a xs rule: exactSum.induct)
  case (1 a)
  show ?case by simp
next
  case (2 a b xs)
  then show ?case by (simp add: add.assoc)
qed simp_all

lemma getTotalByCategory_foldl:
  "getTotalByCategory st c = foldl js_add (Finite 0) (map sp_amount (categorySpending st c))"
  by (simp add: getTotalByCategory_def foldl_map)

lemma categorySpending_currency:
  "categorySpending (st\<lparr>spendings := map (\<lambda>e. e\<lparr>sp_currency := cur e\<rparr>) (spendings st)\<rparr>) c =
     map (\<lambda>e. e\<lparr>sp_currency := cur e\<rparr>) (categorySpending st c)"
  by (simp add: categorySpending_def filter_map comp_def)

lemma decimalDigits_two:
  "decimalDigits n =
     (if n < 10 then [digitChar n]
      else if n < 100 then [digitChar (n div 10), digitChar (n mod 10)]
      else decimalDigits (n div 100) @ [digitChar (n mod 100 div 10), digitChar (n mod 10)])"
proof -
  have a: "n div 10 div 10 = n div 100" by (simp add: div_mult2_eq)
  have "n mod 100 = 10 * (n div 10 mod 10) + n mod 10"
    using mod_mult2_eq [of n 10 10] by simp
  then have b: "n div 10 mod 10 = n mod 100 div 10"
    by simp
  show ?thesis
    by (subst decimalDigits.simps, subst decimalDigits.simps [of "n div 10"]) (auto simp: a b)
qed

lemma length_decimalDigits: "0 < length (decimalDigits n)"
  by (subst decimalDigits.simps) simp

lemma toFixed_two:
  assumes "0 \<le> x" and "x < 10 ^ 21"
  shows "toFixed 2 (Finite x) =
           decimalDigits (nat \<lfloor>x * 100 + 1 / 2\<rfloor> div 100) @
           [DOT, digitChar (nat \<lfloor>x * 100 + 1 / 2\<rfloor> mod 100 div 10),
            digitChar (nat \<lfloor>x * 100 + 1 / 2\<rfloor> mod 10)]"
proof -
  define n where "n = nat \<lfloor>x * 100 + 1 / 2\<rfloor>"
  have t: "toFixed 2 (Finite x) =
      (let m = decimalDigits n;
           m' = (if length m \<le> 2 then replicate (3 - length m) 0x30 @ m else m)
       in take (length m' - 2) m' @ [DOT] @ drop (length m' - 2) m')"
    using assms by (simp add: toFixed_def Let_def n_def)
  have z: "decimalDigits 0 = [0x30]" by simp
  have d0: "digitChar 0 = 0x30" by (simp add: digitChar_def)
  consider "n < 10" | "10 \<le> n" "n < 100" | "100 \<le> n" by linarith
  then have "(let m = decimalDigits n;
           m' = (if length m \<le> 2 then replicate (3 - length m) 0x30 @ m else m)
       in take (length m' - 2) m' @ [DOT] @ drop (length m' - 2) m') =
      decimalDigits (n div 100) @ [DOT, digitChar (n mod 100 div 10), digitChar (n mod 10)]"
  proof cases
    case 1
    then have "decimalDigits n = [digitChar n]" by (subst decimalDigits.simps) simp
    with 1 show ?thesis by (simp add: z d0 numeral_3_eq_3)
  next
    case 2
    then have "decimalDigits n = [digitChar (n div 10), digitChar (n mod 10)]"
      by (subst decimalDigits_two) simp
    with 2 show ?thesis by (simp add: z)
  next
    case 3
    then have "decimalDigits n =
        decimalDigits (n div 100) @ [digitChar (n mod 100 div 10), digitChar (n mod 10)]"
      by (subst decimalDigits_two) simp
    then show ?thesis using length_decimalDigits [of "n div 100"] by simp
  qed
  with t show ?thesis by (simp add: n_def)
qed

lemma nearest_hundredth:
  assumes "0 \<le> (x :: rat)"
  shows "\<bar>of_nat (nat \<lfloor>x * 100 + 1 / 2\<rfloor>) - x * 100\<bar> \<le> 1 / 2"
proof -
  have "0 \<le> \<lfloor>x * 100 + 1 / 2\<rfloor>" using assms by simp
  then have "(of_nat (nat \<lfloor>x * 100 + 1 / 2\<rfloor>) :: rat) = of_int \<lfloor>x * 100 + 1 / 2\<rfloor>"
    by simp
  moreover have "of_int \<lfloor>x * 100 + 1 / 2\<rfloor> \<le> x * 100 + 1 / 2" by (rule of_int_floor_le)
  moreover have "x * 100 + 1 / 2 < of_int \<lfloor>x * 100 + 1 / 2\<rfloor> + 1" by linarith
  ultimately show ?thesis by linarith
qed

text \<open>
  C8, as the claim states it, fails. The total is the sum of doubles: with the amounts
  \<open>9007199254740992\<close> and \<open>1\<close> in the Ledger the total shown for \<open>All\<close> is
  \<open>$9007199254740992.00 MXN\<close>, one less than the arithmetic sum. And a total from
  \<open>10^21\<close> on is not written with two decimals: the single amount
  \<open>1000000000000000000000\<close> is shown as \<open>$1e+21 MXN\<close>.
\<close>

theorem displayed_total_not_arithmetic_sum:
  "map sp_amount
     (spendings (run initialState
        [InputChange (str ''amount'') (str ''9007199254740992''), AddSpending 1 (str ''1/1/2025''),
         InputChange (str ''amount'') (str ''1''), AddSpending 2 (str ''1/1/2025'')])) =
     [Finite 1, Finite 9007199254740992] \<and>
   sum_list [1, 9007199254740992 :: rat] = 9007199254740993 \<and>
   displayedTotal
     (run initialState
        [InputChange (str ''amount'') (str ''9007199254740992''), AddSpending 1 (str ''1/1/2025''),
         InputChange (str ''amount'') (str ''1''), AddSpending 2 (str ''1/1/2025'')])
     (str ''All'') = str ''$9007199254740992.00 MXN'' \<and>
   displayedTotal
     (run initialState
        [InputChange (str ''amount'') (str ''1000000000000000000000''),
         AddSpending 1 (str ''1/1/2025'')])
     (str ''All'') = str ''$1e+21 MXN''"
proof -
  have l1: "spendings (run initialState
        [InputChange (str ''amount'') (str ''9007199254740992''), AddSpending 1 (str ''1/1/2025''),
         InputChange (str ''amount'') (str ''1''), AddSpending 2 (str ''1/1/2025'')]) =
      [\<lparr>sp_id = 2, sp_category = str ''General'', sp_amount = Finite 1,
        sp_currency = str ''MXN'', sp_note = [], sp_date = str ''1/1/2025''\<rparr>,
       \<lparr>sp_id = 1, sp_category = str ''General'', sp_amount = Finite 9007199254740992,
        sp_currency = str ''MXN'', sp_note = [], sp_date = str ''1/1/2025''\<rparr>]"
    by (simp add: string_defs form_defs commit_defs parse_eval)
  have l2: "spendings (run initialState
        [InputChange (str ''amount'') (str ''1000000000000000000000''),
         AddSpending 1 (str ''1/1/2025'')]) =
      [\<lparr>sp_id = 1, sp_category = str ''General'', sp_amount = Finite 1000000000000000000000,
        sp_currency = str ''MXN'', sp_note = [], sp_date = str ''1/1/2025''\<rparr>]"
    by (simp add: string_defs form_defs commit_defs parse_eval)
  have t1: "getTotalByCategory (run initialState
        [InputChange (str ''amount'') (str ''9007199254740992''), AddSpending 1 (str ''1/1/2025''),
         InputChange (str ''amount'') (str ''1''), AddSpending 2 (str ''1/1/2025'')])
      (str ''All'') = Finite 9007199254740992"
    by (simp add: getTotalByCategory_def categorySpending_def l1 number_defs)
  have t2: "getTotalByCategory (run initialState
        [InputChange (str ''amount'') (str ''1000000000000000000000''),
         AddSpending 1 (str ''1/1/2025'')])
      (str ''All'') = Finite 1000000000000000000000"
    by (simp add: getTotalByCategory_def categorySpending_def l2 number_defs)
  have f1: "toFixed 2 (Finite 9007199254740992) = str ''9007199254740992.00''"
    by (simp add: toFixed_def string_defs digitChar_def)
  have de: "decimalExponent 1000000000000000000000 = 22"
    by (simp add: decimalExponent_def)
  have dc: "digitCandidates 1000000000000000000000 21 = [1]"
    by (simp add: digitCandidates_def number_defs Let_def)
  have sf: "shortestFrom 17 (Suc 0) 1000000000000000000000 = Some (1, 21)"
    by (simp add: shortestFrom_numeral de dc nearestCandidate_def Let_def)
  have sd: "shortestDigits 1000000000000000000000 = ([0x31], 22)"
    by (simp add: shortestDigits_def sf)
  have ps: "positiveToString 1000000000000000000000 = str ''1e+21''"
    by (simp add: positiveToString_def sd Let_def string_defs digitChar_def)
  have f2: "toFixed 2 (Finite 1000000000000000000000) = str ''1e+21''"
    by (simp add: toFixed_def numberToString_def ps)
  show ?thesis
    by (simp add: l1 displayedTotal_def formatAmount_def t1 t2 f1 f2) (simp add: str_def)
qed

text \<open>
  C8, amended. The total displayed for a category \<open>c\<close> is \<open>$\<close>, then \<open>toFixed(2)\<close> of
  the total, then \<open>MXN\<close>, whatever the currencies of the entries. The total is the sum
  of doubles, from the left and from \<open>0\<close>, of the amounts of the entries whose category
  is \<open>c\<close> (of all entries for \<open>All\<close>); it is the arithmetic sum when no addition
  rounds. A total that is finite, not negative and below \<open>10^21\<close> is written as the
  nearest number of hundredths, the larger of two, with two digits after the point. With
  no matching entry the display is \<open>$0.00 MXN\<close>.
\<close>

theorem displayed_total_of_category:
  "displayedTotal st c = str ''$'' @ toFixed 2 (getTotalByCategory st c) @ str '' MXN'' \<and>
   displayedTotal (st\<lparr>spendings := map (\<lambda>e. e\<lparr>sp_currency := cur e\<rparr>) (spendings st)\<rparr>) c =
     displayedTotal st c \<and>
   categorySpending st c =
     (if c = str ''All'' then spendings st else filter (\<lambda>e. sp_category e = c) (spendings st)) \<and>
   getTotalByCategory st c = foldl js_add (Finite 0) (map sp_amount (categorySpending st c)) \<and>
   (exactSum 0 (map sp_amount (categorySpending st c)) \<longrightarrow>
      getTotalByCategory st c =
        Finite (sum_list (map valueOf (map sp_amount (categorySpending st c))))) \<and>
   (\<forall>x. getTotalByCategory st c = Finite x \<and> 0 \<le> x \<and> x < 10 ^ 21 \<longrightarrow>
      toFixed 2 (Finite x) =
        decimalDigits (nat \<lfloor>x * 100 + 1 / 2\<rfloor> div 100) @
        [DOT, digitChar (nat \<lfloor>x * 100 + 1 / 2\<rfloor> mod 100 div 10),
         digitChar (nat \<lfloor>x * 100 + 1 / 2\<rfloor> mod 10)] \<and>
      \<bar>of_nat (nat \<lfloor>x * 100 + 1 / 2\<rfloor>) - x * 100\<bar> \<le> 1 / 2) \<and>
   (categorySpending st c = [] \<longrightarrow> displayedTotal st c = str ''$0.00 MXN'')"
proof -
  have a: "displayedTotal st c = str ''$'' @ toFixed 2 (getTotalByCategory st c) @ str '' MXN''"
    by (simp add: displayedTotal_def formatAmount_def str_def)
  have "getTotalByCategory
          (st\<lparr>spendings := map (\<lambda>e. e\<lparr>sp_currency := cur e\<rparr>) (spendings st)\<rparr>) c =
        getTotalByCategory st c"
    by (simp add: getTotalByCategory_foldl categorySpending_currency comp_def)
  then have b: "displayedTotal
      (st\<lparr>spendings := map (\<lambda>e. e\<lparr>sp_currency := cur e\<rparr>) (spendings st)\<rparr>) c =
      displayedTotal st c"
    by (simp add: displayedTotal_def)
  have d: "exactSum 0 (map sp_amount (categorySpending st c)) \<longrightarrow>
      getTotalByCategory st c =
        Finite (sum_list (map valueOf (map sp_amount (categorySpending st c))))"
    using foldl_js_add_exact [of 0 "map sp_amount (categorySpending st c)"]
    by (simp add: getTotalByCategory_foldl)
  have "toFixed 2 (Finite 0) = str ''0.00''"
    using toFixed_two [of 0] by (simp add: str_def DOT_def digitChar_def)
  then have e: "categorySpending st c = [] \<longrightarrow> displayedTotal st c = str ''$0.00 MXN''"
    by (simp add: displayedTotal_def formatAmount_def getTotalByCategory_def str_def)
  have c: "categorySpending st c =
      (if c = str ''All'' then spendings st else filter (\<lambda>e. sp_category e = c) (spendings st))"
    by (simp add: categorySpending_def)
  have f: "getTotalByCategory st c =
      foldl js_add (Finite 0) (map sp_amount (categorySpending st c))"
    by (rule getTotalByCategory_foldl)
  have g: "\<forall>x. getTotalByCategory st c = Finite x \<and> 0 \<le> x \<and> x < 10 ^ 21 \<longrightarrow>
      toFixed 2 (Finite x) =
        decimalDigits (nat \<lfloor>x * 100 + 1 / 2\<rfloor> div 100) @
        [DOT, digitChar (nat \<lfloor>x * 100 + 1 / 2\<rfloor> mod 100 div 10),
         digitChar (nat \<lfloor>x * 100 + 1 / 2\<rfloor> mod 10)] \<and>
      \<bar>of_nat (nat \<lfloor>x * 100 + 1 / 2\<rfloor>) - x * 100\<bar> \<le> 1 / 2"
    using toFixed_two nearest_hundredth by blast
  show ?thesis
    by (intro conjI a b c f d g e)
qed

theorem displayed_total_of_category_witness:
  "map sp_amount
     (categorySpending
        (run initialState
           [InputChange (str ''amount'') (str ''10''), AddSpending 1 (str ''1/1/2025''),
            InputChange (str ''category'') (str ''Personal''),
            InputChange (str ''amount'') (str ''20''), ToggleCurrency,
            AddSpending 2 (str ''1/1/2025''),
            InputChange (str ''category'') (str ''Auto''),
            InputChange (str ''amount'') (str ''30''), AddSpending 3 (str ''1/1/2025'')])
        (str ''All'')) = [Finite 30, Finite 20, Finite 10] \<and>
   exactSum 0 [Finite 30, Finite 20, Finite 10] \<and>
   displayedTotal
     (run initialState
        [InputChange (str ''amount'') (str ''10''), AddSpending 1 (str ''1/1/2025''),
         InputChange (str ''category'') (str ''Personal''),
         InputChange (str ''amount'') (str ''20''), ToggleCurrency,
         AddSpending 2 (str ''1/1/2025''),
         InputChange (str ''category'') (str ''Auto''),
         InputChange (str ''amount'') (str ''30''), AddSpending 3 (str ''1/1/2025'')])
     (str ''All'') = str ''$60.00 MXN'' \<and>
   displayedTotal
     (run initialState
        [InputChange (str ''amount'') (str ''10''), AddSpending 1 (str ''1/1/2025''),
         InputChange (str ''category'') (str ''Personal''),
         InputChange (str ''amount'') (str ''20''), ToggleCurrency,
         AddSpending 2 (str ''1/1/2025''),
         InputChange (str ''category'') (str ''Auto''),
         InputChange (str ''amount'') (str ''30''), AddSpending 3 (str ''1/1/2025'')])
     (str ''Auto'') = str ''$30.00 MXN'' \<and>
   displayedTotal
     (run initialState
        [InputChange (str ''amount'') (str ''10''), AddSpending 1 (str ''1/1/2025''),
         InputChange (str ''category'') (str ''Personal''),
         InputChange (str ''amount'') (str ''20''), ToggleCurrency,
         AddSpending 2 (str ''1/1/2025''),
         InputChange (str ''category'') (str ''Auto''),
         InputChange (str ''amount'') (str ''30''), AddSpending 3 (str ''1/1/2025'')])
     (str ''House'') = str ''$0.00 MXN''"
proof -
  define st where "st = run initialState
        [InputChange (str ''amount'') (str ''10''), AddSpending 1 (str ''1/1/2025''),
         InputChange (str ''category'') (str ''Personal''),
         InputChange (str ''amount'') (str ''20''), ToggleCurrency,
         AddSpending 2 (str ''1/1/2025''),
         InputChange (str ''category'') (str ''Auto''),
         InputChange (str ''amount'') (str ''30''), AddSpending 3 (str ''1/1/2025'')]"
  have l: "spendings st =
      [\<lparr>sp_id = 3, sp_category = str ''Auto'', sp_amount = Finite 30,
        sp_currency = str ''MXN'', sp_note = [], sp_date = str ''1/1/2025''\<rparr>,
       \<lparr>sp_id = 2, sp_category = str ''Personal'', sp_amount = Finite 20,
        sp_currency = str ''USD'', sp_note = [], sp_date = str ''1/1/2025''\<rparr>,
       \<lparr>sp_id = 1, sp_category = str ''General'', sp_amount = Finite 10,
        sp_currency = str ''MXN'', sp_note = [], sp_date = str ''1/1/2025''\<rparr>]"
    unfolding st_def by (simp add: string_defs form_defs commit_defs parse_eval)
  have c1: "map sp_amount (categorySpending st (str ''All'')) = [Finite 30, Finite 20, Finite 10]"
    by (simp add: categorySpending_def l)
  have c2: "map sp_amount (categorySpending st (str ''Auto'')) = [Finite 30]"
    by (simp add: categorySpending_def l str_def)
  have c3: "categorySpending st (str ''House'') = []"
    by (simp add: categorySpending_def l str_def)
  have e1: "exactSum 0 [Finite 30, Finite 20, Finite 10]"
    by (simp add: number_defs)
  have e2: "exactSum 0 [Finite 30]"
    by (simp add: number_defs)
  note all = displayed_total_of_category [of st "str ''All''" sp_currency]
  note auto = displayed_total_of_category [of st "str ''Auto''" sp_currency]
  note house = displayed_total_of_category [of st "str ''House''" sp_currency]
  from all have "exactSum 0 (map sp_amount (categorySpending st (str ''All''))) \<longrightarrow>
      getTotalByCategory st (str ''All'') =
        Finite (sum_list (map valueOf (map sp_amount (categorySpending st (str ''All'')))))"
    by blast
  with e1 have t1: "getTotalByCategory st (str ''All'') = Finite 60"
    by (simp add: c1)
  from auto have "exactSum 0 (map sp_amount (categorySpending st (str ''Auto''))) \<longrightarrow>
      getTotalByCategory st (str ''Auto'') =
        Finite (sum_list (map valueOf (map sp_amount (categorySpending st (str ''Auto'')))))"
    by blast
  with e2 have t2: "getTotalByCategory st (str ''Auto'') = Finite 30"
    by (simp add: c2)
  from all have "\<forall>x. getTotalByCategory st (str ''All'') = Finite x \<and> 0 \<le> x \<and> x < 10 ^ 21 \<longrightarrow>
      toFixed 2 (Finite x) =
        decimalDigits (nat \<lfloor>x * 100 + 1 / 2\<rfloor> div 100) @
        [DOT, digitChar (nat \<lfloor>x * 100 + 1 / 2\<rfloor> mod 100 div 10),
         digitChar (nat \<lfloor>x * 100 + 1 / 2\<rfloor> mod 10)] \<and>
      \<bar>of_nat (nat \<lfloor>x * 100 + 1 / 2\<rfloor>) - x * 100\<bar> \<le> 1 / 2"
    by blast
  from this [rule_format, of 60] t1 have f1: "toFixed 2 (Finite 60) = str ''60.00''"
    by (simp add: str_def DOT_def digitChar_def)
  from auto have "\<forall>x. getTotalByCategory st (str ''Auto'') = Finite x \<and> 0 \<le> x \<and> x < 10 ^ 21 \<longrightarrow>
      toFixed 2 (Finite x) =
        decimalDigits (nat \<lfloor>x * 100 + 1 / 2\<rfloor> div 100) @
        [DOT, digitChar (nat \<lfloor>x * 100 + 1 / 2\<rfloor> mod 100 div 10),
         digitChar (nat \<lfloor>x * 100 + 1 / 2\<rfloor> mod 10)] \<and>
      \<bar>of_nat (nat \<lfloor>x * 100 + 1 / 2\<rfloor>) - x * 100\<bar> \<le> 1 / 2"
    by blast
  from this [rule_format, of 30] t2 have f2: "toFixed 2 (Finite 30) = str ''30.00''"
    by (simp add: str_def DOT_def digitChar_def)
  from all have "displayedTotal st (str ''All'') =
      str ''$'' @ toFixed 2 (getTotalByCategory st (str ''All'')) @ str '' MXN''"
    by blast
  then have d1: "displayedTotal st (str ''All'') = str ''$60.00 MXN''"
    by (simp add: t1 f1) (simp add: str_def)
  from auto have "displayedTotal st (str ''Auto'') =
      str ''$'' @ toFixed 2 (getTotalByCategory st (str ''Auto'')) @ str '' MXN''"
    by blast
  then have d2: "displayedTotal st (str ''Auto'') = str ''$30.00 MXN''"
    by (simp add: t2 f2) (simp add: str_def)
  from house have "categorySpending st (str ''House'') = [] \<longrightarrow>
      displayedTotal st (str ''House'') = str ''$0.00 MXN''"
    by blast
  with c3 have d3: "displayedTotal st (str ''House'') = str ''$0.00 MXN''"
    by simp
  from c1 e1 d1 d2 d3 show ?thesis
    unfolding st_def by simp
qed

end
